theory Spec2Isabelle
  imports Main "HOL-Library.AList" "HOL-Library.Sublist"
begin

section \<open>JSON values and the Python operations the client applies to them\<close>

text \<open>
  \<^verbatim>\<open>api_request\<close> hands back whatever \<^verbatim>\<open>json.loads\<close> produced, and the rest of
  \<^verbatim>\<open>scripts/kanbanzone_api.py\<close> works on these untyped values. They are modelled by the
  datatype \<open>json\<close>. A Python \<^verbatim>\<open>dict\<close> is an association list in insertion order, read
  with \<open>map_of\<close>; \<^verbatim>\<open>None\<close> is \<open>JNull\<close>. Numbers with a fractional part are outside the
  model, and strings are lists of characters, with \<^verbatim>\<open>str.lower\<close> acting on the ASCII
  letters.
\<close>

datatype json =
    JNull
  | JBool bool
  | JInt int
  | JStr string
  | JList "json list"
  | JObj "(string \<times> json) list"

text \<open>The exceptions the modelled code can raise on a value of the wrong shape.\<close>

datatype py_error = AttributeError | TypeError | KeyError | IndexError

type_synonym 'a result = "py_error + 'a"

text \<open>Truth value testing, as \<^verbatim>\<open>if x:\<close> and \<^verbatim>\<open>x or y\<close> do it.\<close>

fun truthy :: "json \<Rightarrow> bool" where
  "truthy JNull = False"
| "truthy (JBool b) = b"
| "truthy (JInt i) = (i \<noteq> 0)"
| "truthy (JStr s) = (s \<noteq> [])"
| "truthy (JList xs) = (xs \<noteq> [])"
| "truthy (JObj kvs) = (kvs \<noteq> [])"

text \<open>\<^verbatim>\<open>x or y\<close>\<close>

definition py_or :: "json \<Rightarrow> json \<Rightarrow> json" where
  "py_or x y = (if truthy x then x else y)"

text \<open>
  \<^verbatim>\<open>d.get(key, default)\<close>: only a \<^verbatim>\<open>dict\<close> has the method, every other value raises
  \<^verbatim>\<open>AttributeError\<close>. \<^verbatim>\<open>d.get(key)\<close> is \<open>py_get d key JNull\<close>.
\<close>

fun py_get :: "json \<Rightarrow> string \<Rightarrow> json \<Rightarrow> json result" where
  "py_get (JObj kvs) key dflt = Inr (case map_of kvs key of None \<Rightarrow> dflt | Some v \<Rightarrow> v)"
| "py_get _ key dflt = Inl AttributeError"

text \<open>\<^verbatim>\<open>needle in haystack\<close> on two strings: the substring test.\<close>

fun str_contains :: "string \<Rightarrow> string \<Rightarrow> bool" where
  "str_contains needle [] = (needle = [])"
| "str_contains needle (c # cs) = (prefix needle (c # cs) \<or> str_contains needle cs)"

section \<open>Field Normalizer: \<^verbatim>\<open>get_card_field\<close>\<close>

text \<open>
  \<^verbatim>\<open>
  def get_card_field(card, field):
      if field in card:
          return card[field]
      card_item = card.get("CardItem", {})
      return card_item.get(field)
  \<close>
  On a \<^verbatim>\<open>dict\<close> the membership test looks at the keys. On a list it compares the elements
  with the field name and on a string it is the substring test; when either succeeds the
  subscript \<^verbatim>\<open>card[field]\<close> raises \<^verbatim>\<open>TypeError\<close>, otherwise \<^verbatim>\<open>card.get\<close> raises
  \<^verbatim>\<open>AttributeError\<close>. On \<^verbatim>\<open>None\<close>, a boolean or a number the membership test itself raises
  \<^verbatim>\<open>TypeError\<close>.
\<close>

fun get_card_field :: "json \<Rightarrow> string \<Rightarrow> json result" where
  "get_card_field (JObj kvs) field =
     (case map_of kvs field of
        Some v \<Rightarrow> Inr v
      | None \<Rightarrow>
          (case py_get (JObj kvs) ''CardItem'' (JObj []) of
             Inl e \<Rightarrow> Inl e
           | Inr card_item \<Rightarrow> py_get card_item field JNull))"
| "get_card_field (JList xs) field =
     (if JStr field \<in> set xs then Inl TypeError else Inl AttributeError)"
| "get_card_field (JStr s) field =
     (if str_contains field s then Inl TypeError else Inl AttributeError)"
| "get_card_field JNull field = Inl TypeError"
| "get_card_field (JBool b) field = Inl TypeError"
| "get_card_field (JInt i) field = Inl TypeError"

section \<open>Properties of the Field Normalizer\<close>

text \<open>
  C4. Field resolution does not depend on the shape of the record. A flat record that
  carries field \<open>f\<close> with value \<open>v\<close> at top level and a nested record that carries it
  only inside the \<^verbatim>\<open>CardItem\<close> wrapper both resolve \<open>f\<close> to \<open>v\<close>. When \<open>f\<close> is at
  neither place (the wrapper missing, or a mapping without \<open>f\<close>) the result is the absent
  marker \<^verbatim>\<open>None\<close> and no exception is raised. The flat record \<^verbatim>\<open>{title: "A"}\<close> and the
  nested record \<^verbatim>\<open>{CardItem: {title: "A"}}\<close> both give \<^verbatim>\<open>"A"\<close>.
\<close>

theorem C4_field_shape_agnostic:
  "(map_of flat f = Some v \<longrightarrow> get_card_field (JObj flat) f = Inr v)
   \<and> (map_of nested f = None \<and> map_of nested ''CardItem'' = Some (JObj item)
        \<and> map_of item f = Some v
      \<longrightarrow> get_card_field (JObj nested) f = Inr v)
   \<and> (map_of r f = None
        \<and> (map_of r ''CardItem'' = None
            \<or> (\<exists>item. map_of r ''CardItem'' = Some (JObj item) \<and> map_of item f = None))
      \<longrightarrow> get_card_field (JObj r) f = Inr JNull)
   \<and> get_card_field (JObj [(''title'', JStr ''A'')]) ''title'' = Inr (JStr ''A'')
   \<and> get_card_field (JObj [(''CardItem'', JObj [(''title'', JStr ''A'')])]) ''title''
       = Inr (JStr ''A'')"
  by auto

theorem C4_field_shape_agnostic_witness:
  "map_of [(''label'', JStr ''red'')] ''label'' = Some (JStr ''red'')
   \<and> get_card_field (JObj [(''label'', JStr ''red'')]) ''label'' = Inr (JStr ''red'')
   \<and> map_of [(''CardItem'', JObj [(''label'', JStr ''red'')])] ''label'' = None
   \<and> map_of [(''CardItem'', JObj [(''label'', JStr ''red'')])] ''CardItem''
       = Some (JObj [(''label'', JStr ''red'')])
   \<and> map_of [(''label'', JStr ''red'')] ''label'' = Some (JStr ''red'')
   \<and> get_card_field (JObj [(''CardItem'', JObj [(''label'', JStr ''red'')])]) ''label''
       = Inr (JStr ''red'')
   \<and> map_of [(''CardItem'', JObj [(''title'', JStr ''A'')])] ''label'' = None
   \<and> map_of [(''CardItem'', JObj [(''title'', JStr ''A'')])] ''CardItem''
       = Some (JObj [(''title'', JStr ''A'')])
   \<and> map_of [(''title'', JStr ''A'')] ''label'' = None
   \<and> get_card_field (JObj [(''CardItem'', JObj [(''title'', JStr ''A'')])]) ''label''
       = Inr JNull"
  using C4_field_shape_agnostic
    [of "[(''label'', JStr ''red'')]" "''label''" "JStr ''red''"
        "[(''CardItem'', JObj [(''label'', JStr ''red'')])]" "[(''label'', JStr ''red'')]"
        "[(''CardItem'', JObj [(''title'', JStr ''A'')])]"]
  by simp

text \<open>
  C10. A key present at top level shadows the wrapper. Whenever the field name is a
  top-level key of the record, the result is the top-level value, also when that value is
  \<^verbatim>\<open>None\<close> although the wrapper holds another one, and the wrapper is not consulted: the
  call succeeds even where the wrapper is not a mapping, on which its \<^verbatim>\<open>get\<close> would
  raise. Only when the key is missing at top level does the result come from the wrapper
  (and then a wrapper that is not a mapping does raise).
\<close>

theorem C10_top_level_shadows_wrapper:
  "(map_of r f = Some v \<longrightarrow> get_card_field (JObj r) f = Inr v)
   \<and> get_card_field
        (JObj [(''owner'', JNull), (''CardItem'', JObj [(''owner'', JStr ''ann'')])]) ''owner''
       = Inr JNull
   \<and> get_card_field (JObj [(''owner'', JStr ''bob''), (''CardItem'', JInt 3)]) ''owner''
       = Inr (JStr ''bob'')
   \<and> (map_of r' f' = None \<longrightarrow>
        get_card_field (JObj r') f'
          = (case map_of r' ''CardItem'' of
               None \<Rightarrow> Inr JNull
             | Some w \<Rightarrow> py_get w f' JNull))
   \<and> get_card_field (JObj [(''CardItem'', JInt 3)]) ''owner'' = Inl AttributeError"
  by (auto split: option.splits)

theorem C10_top_level_shadows_wrapper_witness:
  "map_of [(''owner'', JNull), (''CardItem'', JObj [(''owner'', JStr ''ann'')])] ''owner''
     = Some JNull
   \<and> get_card_field
        (JObj [(''owner'', JNull), (''CardItem'', JObj [(''owner'', JStr ''ann'')])]) ''owner''
       = Inr JNull
   \<and> map_of [(''CardItem'', JObj [(''owner'', JStr ''ann'')])] ''owner'' = None
   \<and> get_card_field (JObj [(''CardItem'', JObj [(''owner'', JStr ''ann'')])]) ''owner''
       = Inr (JStr ''ann'')"
  using C10_top_level_shadows_wrapper
    [of "[(''owner'', JNull), (''CardItem'', JObj [(''owner'', JStr ''ann'')])]"
        "''owner''" JNull
        "[(''CardItem'', JObj [(''owner'', JStr ''ann'')])]" "''owner''"]
  by simp

section \<open>Filter Engine: \<^verbatim>\<open>filter_cards\<close>\<close>

text \<open>\<^verbatim>\<open>str.lower\<close> on the ASCII letters; any other character is left as it is.\<close>

definition lower_char :: "char \<Rightarrow> char" where
  "lower_char c =
     (case map_of (zip ''ABCDEFGHIJKLMNOPQRSTUVWXYZ'' ''abcdefghijklmnopqrstuvwxyz'') c of
        None \<Rightarrow> c
      | Some d \<Rightarrow> d)"

definition py_lower :: "string \<Rightarrow> string" where
  "py_lower s = map lower_char s"

text \<open>\<^verbatim>\<open>x.lower()\<close> on a value: only a string has the method.\<close>

fun lower_method :: "json \<Rightarrow> string result" where
  "lower_method (JStr s) = Inr (py_lower s)"
| "lower_method _ = Inl AttributeError"

text \<open>Decimal notation of an integer, as \<^verbatim>\<open>str\<close> and an f-string print it.\<close>

fun digits :: "nat \<Rightarrow> string" where
  "digits n =
     (if n < 10 then [''0123456789'' ! n]
      else digits (n div 10) @ [''0123456789'' ! (n mod 10)])"

declare digits.simps [simp del]

definition str_int :: "int \<Rightarrow> string" where
  "str_int i = (if i < 0 then CHR ''-'' # digits (nat (- i)) else digits (nat i))"

text \<open>
  \<^verbatim>\<open>str(x)\<close>. The text Python prints for a list or a \<^verbatim>\<open>dict\<close> (their \<^verbatim>\<open>repr\<close>) is not
  modelled: it is the parameter \<open>repr\<close>, and what is proved holds for every choice of it.
\<close>

fun py_str :: "(json \<Rightarrow> string) \<Rightarrow> json \<Rightarrow> string" where
  "py_str repr JNull = ''None''"
| "py_str repr (JBool b) = (if b then ''True'' else ''False'')"
| "py_str repr (JInt i) = str_int i"
| "py_str repr (JStr s) = s"
| "py_str repr (JList xs) = repr (JList xs)"
| "py_str repr (JObj kvs) = repr (JObj kvs)"

text \<open>
  The keyword arguments of \<^verbatim>\<open>filter_cards\<close>. \<^verbatim>\<open>argparse\<close> gives a string or \<^verbatim>\<open>None\<close> for
  \<^verbatim>\<open>--label\<close>, \<^verbatim>\<open>--owner\<close>, \<^verbatim>\<open>--column\<close>, \<^verbatim>\<open>--priority\<close> and \<^verbatim>\<open>--query\<close>, and a
  boolean for \<^verbatim>\<open>--blocked\<close>.
\<close>

record card_filter =
  label :: "string option"
  owner :: "string option"
  column :: "string option"
  priority :: "string option"
  blocked :: bool
  query :: "string option"

text \<open>
  In the tests below an argument that is \<^verbatim>\<open>None\<close> or the empty string is false, and the
  comparison after \<^verbatim>\<open>and\<close> is then not evaluated.
\<close>

text \<open>\<^verbatim>\<open>(get_card_field(card, field) or "").lower()\<close>\<close>

definition lowered_field :: "json \<Rightarrow> string \<Rightarrow> string result" where
  "lowered_field crd field =
     (case get_card_field crd field of
        Inl e \<Rightarrow> Inl e
      | Inr v \<Rightarrow> lower_method (py_or v (JStr [])))"

text \<open>
  The condition of the first three \<^verbatim>\<open>if\<close>s of the loop, for instance
  \<^verbatim>\<open>label and (get_card_field(card, "label") or "").lower() != label.lower()\<close>:
  true when the card is to be skipped.
\<close>

definition differs_ci :: "string option \<Rightarrow> json \<Rightarrow> string \<Rightarrow> bool result" where
  "differs_ci wanted crd field =
     (case wanted of
        None \<Rightarrow> Inr False
      | Some w \<Rightarrow>
          if w = [] then Inr False
          else (case lowered_field crd field of
                  Inl e \<Rightarrow> Inl e
                | Inr got \<Rightarrow> Inr (got \<noteq> py_lower w)))"

text \<open>\<^verbatim>\<open>priority and str(get_card_field(card, "priority") or "") != str(priority)\<close>\<close>

definition differs_priority ::
  "(json \<Rightarrow> string) \<Rightarrow> string option \<Rightarrow> json \<Rightarrow> bool result" where
  "differs_priority repr wanted crd =
     (case wanted of
        None \<Rightarrow> Inr False
      | Some w \<Rightarrow>
          if w = [] then Inr False
          else (case get_card_field crd ''priority'' of
                  Inl e \<Rightarrow> Inl e
                | Inr v \<Rightarrow> Inr (py_str repr (py_or v (JStr [])) \<noteq> w)))"

text \<open>\<^verbatim>\<open>blocked and not get_card_field(card, "blocked")\<close>\<close>

definition not_blocked :: "bool \<Rightarrow> json \<Rightarrow> bool result" where
  "not_blocked wanted crd =
     (if wanted then
        (case get_card_field crd ''blocked'' of
           Inl e \<Rightarrow> Inl e
         | Inr v \<Rightarrow> Inr (\<not> truthy v))
      else Inr False)"

text \<open>
  The free-text test: title and description are both fetched and lowered before the two
  substring tests are made.
\<close>

definition query_misses :: "string option \<Rightarrow> json \<Rightarrow> bool result" where
  "query_misses wanted crd =
     (case wanted of
        None \<Rightarrow> Inr False
      | Some w \<Rightarrow>
          if w = [] then Inr False
          else
            (let q = py_lower w in
             case lowered_field crd ''title'' of
               Inl e \<Rightarrow> Inl e
             | Inr title \<Rightarrow>
                 (case lowered_field crd ''description'' of
                    Inl e \<Rightarrow> Inl e
                  | Inr desc \<Rightarrow> Inr (\<not> str_contains q title \<and> \<not> str_contains q desc))))"

text \<open>
  One pass of the loop body of \<^verbatim>\<open>filter_cards\<close>: \<open>Inr True\<close> when the card reaches
  \<^verbatim>\<open>result.append(card)\<close>, \<open>Inr False\<close> when one of the tests runs into its
  \<^verbatim>\<open>continue\<close>; the tests after that one are not evaluated.
\<close>

definition keep_card :: "(json \<Rightarrow> string) \<Rightarrow> card_filter \<Rightarrow> json \<Rightarrow> bool result" where
  "keep_card repr F crd =
     (case differs_ci (label F) crd ''label'' of
        Inl e \<Rightarrow> Inl e
      | Inr True \<Rightarrow> Inr False
      | Inr False \<Rightarrow>
     (case differs_ci (owner F) crd ''owner'' of
        Inl e \<Rightarrow> Inl e
      | Inr True \<Rightarrow> Inr False
      | Inr False \<Rightarrow>
     (case differs_ci (column F) crd ''columnTitle'' of
        Inl e \<Rightarrow> Inl e
      | Inr True \<Rightarrow> Inr False
      | Inr False \<Rightarrow>
     (case differs_priority repr (priority F) crd of
        Inl e \<Rightarrow> Inl e
      | Inr True \<Rightarrow> Inr False
      | Inr False \<Rightarrow>
     (case not_blocked (blocked F) crd of
        Inl e \<Rightarrow> Inl e
      | Inr True \<Rightarrow> Inr False
      | Inr False \<Rightarrow>
     (case query_misses (query F) crd of
        Inl e \<Rightarrow> Inl e
      | Inr True \<Rightarrow> Inr False
      | Inr False \<Rightarrow> Inr True))))))"

text \<open>
  \<^verbatim>\<open>
  def filter_cards(cards, label=None, owner=None, column=None, priority=None,
                   blocked=False, query=None):
      result = []
      for card in cards:
          ...
          result.append(card)
      return result
  \<close>
  The cards are visited from first to last; an exception raised at a card ends the call.
\<close>

fun filter_cards :: "(json \<Rightarrow> string) \<Rightarrow> json list \<Rightarrow> card_filter \<Rightarrow> json list result" where
  "filter_cards repr [] F = Inr []"
| "filter_cards repr (crd # cards) F =
     (case keep_card repr F crd of
        Inl e \<Rightarrow> Inl e
      | Inr keep \<Rightarrow>
          (case filter_cards repr cards F of
             Inl e \<Rightarrow> Inl e
           | Inr result \<Rightarrow> Inr (if keep then crd # result else result)))"

text \<open>The defaults of the keyword arguments: no predicate at all.\<close>

definition default_filter :: card_filter where
  "default_filter =
     \<lparr>label = None, owner = None, column = None, priority = None, blocked = False,
      query = None\<rparr>"

section \<open>Properties of the Filter Engine\<close>



lemma differs_ci_off [simp]:
  "differs_ci None r fld = Inr False" "differs_ci (Some []) r fld = Inr False"
  by (simp_all add: differs_ci_def)


lemmas keep_defs = keep_card_def differs_priority_def not_blocked_def query_misses_def







lemma filter_cards_Inr:
  "filter_cards repr cards F = Inr res \<Longrightarrow>
     res = filter (\<lambda>c. keep_card repr F c = Inr True) cards"
  by (induction cards arbitrary: res) (auto split: sum.splits if_splits)

lemma filter_cards_kept:
  "\<forall>c \<in> set cards. keep_card repr F c = Inr True \<Longrightarrow> filter_cards repr cards F = Inr cards"
  by (induction cards) auto

lemma filter_cards_twice:
  "filter_cards repr cards F = Inr res \<Longrightarrow> filter_cards repr res F = Inr res"
proof -
  assume a: "filter_cards repr cards F = Inr res"
  have "res = filter (\<lambda>c. keep_card repr F c = Inr True) cards"
    using a by (rule filter_cards_Inr)
  then have "\<forall>c \<in> set res. keep_card repr F c = Inr True" by simp
  then show ?thesis by (rule filter_cards_kept)
qed

text \<open>
  C8. Filtering is idempotent and keeps the order. For every list of records \<open>R\<close> and
  every filter \<open>F\<close>, whatever predicates it combines, filtering the result of
  \<open>filter_cards R F\<close> again with \<open>F\<close> gives that result again (and where the first call
  raises, the composition raises the same exception); the result is a subsequence of
  \<open>R\<close>, its records in the order they have in \<open>R\<close>.
\<close>

theorem C8_filter_idempotent:
  "(case filter_cards repr R F of Inl e \<Rightarrow> Inl e | Inr R' \<Rightarrow> filter_cards repr R' F)
     = filter_cards repr R F
   \<and> (\<forall>R'. filter_cards repr R F = Inr R' \<longrightarrow> subseq R' R)"
  by (auto split: sum.splits simp: filter_cards_twice dest!: filter_cards_Inr)

theorem C8_filter_idempotent_witness:
  "filter_cards (\<lambda>v. [])
     [JObj [(''title'', JStr ''Fix login''), (''blocked'', JBool True)],
      JObj [(''title'', JStr ''Write docs'')],
      JObj [(''CardItem'', JObj [(''title'', JStr ''login page''), (''blocked'', JBool True)])]]
     (default_filter\<lparr>blocked := True, query := Some ''LOGIN''\<rparr>)
    = Inr [JObj [(''title'', JStr ''Fix login''), (''blocked'', JBool True)],
           JObj [(''CardItem'',
                  JObj [(''title'', JStr ''login page''), (''blocked'', JBool True)])]]
   \<and> filter_cards (\<lambda>v. [])
        [JObj [(''title'', JStr ''Fix login''), (''blocked'', JBool True)],
         JObj [(''CardItem'',
                JObj [(''title'', JStr ''login page''), (''blocked'', JBool True)])]]
        (default_filter\<lparr>blocked := True, query := Some ''LOGIN''\<rparr>)
       = Inr [JObj [(''title'', JStr ''Fix login''), (''blocked'', JBool True)],
              JObj [(''CardItem'',
                     JObj [(''title'', JStr ''login page''), (''blocked'', JBool True)])]]
   \<and> subseq
        [JObj [(''title'', JStr ''Fix login''), (''blocked'', JBool True)],
         JObj [(''CardItem'',
                JObj [(''title'', JStr ''login page''), (''blocked'', JBool True)])]]
        [JObj [(''title'', JStr ''Fix login''), (''blocked'', JBool True)],
         JObj [(''title'', JStr ''Write docs'')],
         JObj [(''CardItem'',
                JObj [(''title'', JStr ''login page''), (''blocked'', JBool True)])]]"
proof -
  let ?R = "[JObj [(''title'', JStr ''Fix login''), (''blocked'', JBool True)],
      JObj [(''title'', JStr ''Write docs'')],
      JObj [(''CardItem'', JObj [(''title'', JStr ''login page''), (''blocked'', JBool True)])]]"
  let ?F = "default_filter\<lparr>blocked := True, query := Some ''LOGIN''\<rparr>"
  let ?R' = "[JObj [(''title'', JStr ''Fix login''), (''blocked'', JBool True)],
           JObj [(''CardItem'',
                  JObj [(''title'', JStr ''login page''), (''blocked'', JBool True)])]]"
  have run: "filter_cards (\<lambda>v. []) ?R ?F = Inr ?R'"
    by (simp add: keep_defs default_filter_def lowered_field_def py_or_def py_lower_def
        lower_char_def)
  from C8_filter_idempotent [where repr = "\<lambda>v. []" and R = ?R and F = ?F] run
  have "filter_cards (\<lambda>v. []) ?R' ?F = Inr ?R'" and "subseq ?R' ?R"
    by simp_all
  with run show ?thesis by simp
qed

section \<open>Transport and Paginator: \<^verbatim>\<open>fetch_all_cards\<close>\<close>

text \<open>
  \<^verbatim>\<open>api_request(method, path, params)\<close> performs one HTTP call and returns the decoded
  JSON document, or a \<^verbatim>\<open>dict\<close> with a true \<^verbatim>\<open>error\<close> entry. It is the external
  collaborator of the client and is a parameter of the model: a function from the request
  to the answer (the API key is taken to be configured). Callers that talk to the network
  return, next to their result, the list of the requests they sent, in the order sent.
\<close>

record request =
  req_method :: string
  req_path :: string
  req_params :: "(string \<times> json) list"

type_synonym transport = "request \<Rightarrow> json"

text \<open>
  Iteration over a value, as \<^verbatim>\<open>list.extend\<close> and \<^verbatim>\<open>for\<close> do it: a list gives its
  elements, a string its characters, a \<^verbatim>\<open>dict\<close> its keys; \<^verbatim>\<open>None\<close>, booleans and numbers
  raise \<^verbatim>\<open>TypeError\<close>.
\<close>

fun py_iter :: "json \<Rightarrow> json list result" where
  "py_iter (JList xs) = Inr xs"
| "py_iter (JStr s) = Inr (map (\<lambda>c. JStr [c]) s)"
| "py_iter (JObj kvs) = Inr (map (\<lambda>kv. JStr (fst kv)) kvs)"
| "py_iter _ = Inl TypeError"

text \<open>
  \<^verbatim>\<open>target.extend(arg)\<close>: the method is looked up first (only a list has it), then the
  argument is evaluated, then the call is made.
\<close>

fun py_extend :: "json \<Rightarrow> json result \<Rightarrow> json result" where
  "py_extend (JList xs) (Inr v) =
     (case py_iter v of Inl e \<Rightarrow> Inl e | Inr ys \<Rightarrow> Inr (JList (xs @ ys)))"
| "py_extend (JList xs) (Inl e) = Inl e"
| "py_extend _ _ = Inl AttributeError"

text \<open>
  The query of \<^verbatim>\<open>fetch_all_cards\<close> before any page number is set:
  \<^verbatim>\<open>
  params = {"board": board, "count": 100}
  if include_archived:
      params["includeArchived"] = "true"
  \<close>
  and the call \<^verbatim>\<open>api_request("GET", "/cards", params=params)\<close>.
\<close>

definition cards_params :: "json \<Rightarrow> bool \<Rightarrow> (string \<times> json) list" where
  "cards_params board include_archived =
     [(''board'', board), (''count'', JInt 100)]
     @ (if include_archived then [(''includeArchived'', JStr ''true'')] else [])"

definition get_cards :: "(string \<times> json) list \<Rightarrow> request" where
  "get_cards params = \<lparr>req_method = ''GET'', req_path = ''/cards'', req_params = params\<rparr>"

text \<open>
  The \<^verbatim>\<open>while\<close> loop of \<^verbatim>\<open>fetch_all_cards\<close>:
  \<^verbatim>\<open>
  while cards_data.get("hasMore"):
      params["page"] = page
      cards_data = api_request("GET", "/cards", params=params)
      if cards_data.get("error"):
          break
      all_cards.extend(cards_data.get("cards", []))
      page += 1
  return all_cards
  \<close>
  \<^verbatim>\<open>params["page"] = page\<close> adds the key at the end of the \<^verbatim>\<open>dict\<close> the first time and
  replaces its value afterwards, which is \<open>AList.update\<close>. A server that answers
  \<^verbatim>\<open>hasMore\<close> for ever keeps the loop running: the function is partial, and \<open>None\<close> is the
  run that does not return.
\<close>

partial_function (option) fetch_more ::
  "transport \<Rightarrow> (string \<times> json) list \<Rightarrow> json \<Rightarrow> json \<Rightarrow> int \<Rightarrow> request list
     \<Rightarrow> (json result \<times> request list) option" where
  "fetch_more api_request params cards_data all_cards page sent =
     (case py_get cards_data ''hasMore'' JNull of
        Inl e \<Rightarrow> Some (Inl e, sent)
      | Inr has_more \<Rightarrow>
          if \<not> truthy has_more then Some (Inr all_cards, sent)
          else
            (let params' = AList.update ''page'' (JInt page) params;
                 cards_data' = api_request (get_cards params');
                 sent' = sent @ [get_cards params']
             in case py_get cards_data' ''error'' JNull of
                  Inl e \<Rightarrow> Some (Inl e, sent')
                | Inr err \<Rightarrow>
                    if truthy err then Some (Inr all_cards, sent')
                    else
                      (case py_extend all_cards (py_get cards_data' ''cards'' (JList [])) of
                         Inl e \<Rightarrow> Some (Inl e, sent')
                       | Inr all_cards' \<Rightarrow>
                           fetch_more api_request params' cards_data' all_cards' (page + 1)
                             sent')))"

text \<open>
  \<^verbatim>\<open>
  def fetch_all_cards(board, include_archived=False):
      params = ...
      cards_data = api_request("GET", "/cards", params=params)
      if cards_data.get("error"):
          return cards_data
      all_cards = cards_data.get("cards", [])
      page = 2
      while ...
  \<close>
\<close>

definition fetch_all_cards ::
  "transport \<Rightarrow> json \<Rightarrow> bool \<Rightarrow> (json result \<times> request list) option" where
  "fetch_all_cards api_request board include_archived =
     (let params = cards_params board include_archived;
          cards_data = api_request (get_cards params);
          sent = [get_cards params]
      in case py_get cards_data ''error'' JNull of
           Inl e \<Rightarrow> Some (Inl e, sent)
         | Inr err \<Rightarrow>
             if truthy err then Some (Inr cards_data, sent)
             else
               (case py_get cards_data ''cards'' (JList []) of
                  Inl e \<Rightarrow> Some (Inl e, sent)
                | Inr all_cards \<Rightarrow> fetch_more api_request params cards_data all_cards 2 sent))"

section \<open>Properties of the Paginator\<close>

text \<open>
  Vocabulary of the statements. \<open>is_page d recs hm\<close>: the answer \<open>d\<close> is a page, a
  \<^verbatim>\<open>dict\<close> without a true \<^verbatim>\<open>error\<close> entry whose \<^verbatim>\<open>cards\<close> are the list \<open>recs\<close> (a
  missing key counts as the empty list) and whose \<^verbatim>\<open>hasMore\<close> entry has the truth value
  \<open>hm\<close>. \<open>is_error d\<close>: the answer is a \<^verbatim>\<open>dict\<close> with a true \<^verbatim>\<open>error\<close> entry, the
  uniform error value of the transport. \<open>page_request board include_archived k\<close>: the
  request the client sends for page \<open>k\<close>; the first page is asked for without a
  \<^verbatim>\<open>page\<close> parameter.
\<close>

fun is_page :: "json \<Rightarrow> json list \<Rightarrow> bool \<Rightarrow> bool" where
  "is_page (JObj kvs) recs hm =
     (\<not> truthy (case map_of kvs ''error'' of None \<Rightarrow> JNull | Some v \<Rightarrow> v)
      \<and> (case map_of kvs ''cards'' of None \<Rightarrow> JList [] | Some v \<Rightarrow> v) = JList recs
      \<and> truthy (case map_of kvs ''hasMore'' of None \<Rightarrow> JNull | Some v \<Rightarrow> v) = hm)"
| "is_page _ recs hm = False"

fun is_error :: "json \<Rightarrow> bool" where
  "is_error (JObj kvs) = truthy (case map_of kvs ''error'' of None \<Rightarrow> JNull | Some v \<Rightarrow> v)"
| "is_error _ = False"

definition page_request :: "json \<Rightarrow> bool \<Rightarrow> nat \<Rightarrow> request" where
  "page_request board include_archived k =
     (if k = 1 then get_cards (cards_params board include_archived)
      else get_cards (AList.update ''page'' (JInt (int k)) (cards_params board include_archived)))"

lemma is_page_gets:
  assumes "is_page d recs hm"
  shows "\<exists>e. py_get d ''error'' JNull = Inr e \<and> \<not> truthy e"
    and "\<exists>m. py_get d ''hasMore'' JNull = Inr m \<and> truthy m = hm"
    and "py_get d ''cards'' (JList []) = Inr (JList recs)"
  using assms by (cases d; simp)+

lemma is_error_get:
  assumes "is_error d"
  shows "\<exists>e. py_get d ''error'' JNull = Inr e \<and> truthy e"
  using assms by (cases d; simp)

lemma fetch_more_stop:
  assumes "is_page cards_data rk False"
  shows "fetch_more t params cards_data all_cards page sent = Some (Inr all_cards, sent)"
  using is_page_gets(2) [OF assms] by (subst fetch_more.simps) auto

lemma fetch_more_error:
  assumes "is_page cards_data rk True"
    and "is_error (t (get_cards (AList.update ''page'' (JInt page) params)))"
  shows "fetch_more t params cards_data all_cards page sent
           = Some (Inr all_cards, sent @ [get_cards (AList.update ''page'' (JInt page) params)])"
  using is_page_gets(2) [OF assms(1)] is_error_get [OF assms(2)]
  by (subst fetch_more.simps) (auto simp: Let_def)

lemma fetch_more_step:
  assumes "is_page cards_data rk True"
    and "is_page (t (get_cards (AList.update ''page'' (JInt page) params))) recs hm"
  shows "fetch_more t params cards_data (JList acc) page sent
           = fetch_more t (AList.update ''page'' (JInt page) params)
               (t (get_cards (AList.update ''page'' (JInt page) params)))
               (JList (acc @ recs)) (page + 1)
               (sent @ [get_cards (AList.update ''page'' (JInt page) params)])"
  using is_page_gets(2) [OF assms(1)] is_page_gets(1,3) [OF assms(2)]
  by (subst fetch_more.simps) (auto simp: Let_def)

lemma page_request_Suc:
  assumes "\<forall>v. AList.update ''page'' v params = AList.update ''page'' v (cards_params b a)"
    and "1 \<le> k"
  shows "get_cards (AList.update ''page'' (JInt (int k + 1)) params) = page_request b a (Suc k)"
  using assms by (simp add: page_request_def add.commute)

lemma fetch_more_pages:
  assumes "1 \<le> k" "k \<le> n"
    and "is_page cards_data rk (k < n)"
    and "\<forall>j. k < j \<and> j \<le> n \<longrightarrow> is_page (t (page_request b a j)) (recs j) (j < n)"
    and "\<forall>v. AList.update ''page'' v params = AList.update ''page'' v (cards_params b a)"
  shows "fetch_more t params cards_data (JList acc) (int k + 1) sent
           = Some (Inr (JList (acc @ concat (map recs [Suc k..<Suc n]))),
                   sent @ map (page_request b a) [Suc k..<Suc n])"
  using assms
proof (induction "n - k" arbitrary: k cards_data rk params acc sent)
  case 0
  then have "k = n" by simp
  with 0 show ?case by (simp add: fetch_more_stop)
next
  case (Suc d)
  then have lt: "k < n" by simp
  let ?p = "AList.update ''page'' (JInt (int k + 1)) params"
  have req: "get_cards ?p = page_request b a (Suc k)"
    using Suc.prems(5) Suc.prems(1) by (rule page_request_Suc)
  have pg: "is_page (t (get_cards ?p)) (recs (Suc k)) (Suc k < n)"
    using Suc.prems(4) lt req by simp
  have cur: "is_page cards_data rk True" using Suc.prems(3) lt by simp
  have inv: "\<forall>v. AList.update ''page'' v ?p = AList.update ''page'' v (cards_params b a)"
    using Suc.prems(5) by (metis AList.update_last)
  have rest: "\<forall>j. Suc k < j \<and> j \<le> n \<longrightarrow> is_page (t (page_request b a j)) (recs j) (j < n)"
    using Suc.prems(4) by simp
  have d: "d = n - Suc k" using Suc.hyps(2) by simp
  have ih: "fetch_more t ?p (t (get_cards ?p)) (JList (acc @ recs (Suc k))) (int (Suc k) + 1)
              (sent @ [get_cards ?p])
            = Some (Inr (JList ((acc @ recs (Suc k)) @ concat (map recs [Suc (Suc k)..<Suc n]))),
                   (sent @ [get_cards ?p]) @ map (page_request b a) [Suc (Suc k)..<Suc n])"
    using Suc.hyps(1) [OF d _ _ pg rest inv] lt by (simp del: upt_Suc)
  have upt: "[Suc k..<Suc n] = Suc k # [Suc (Suc k)..<Suc n]"
    using lt by (simp add: upt_conv_Cons)
  have "fetch_more t params cards_data (JList acc) (int k + 1) sent
          = fetch_more t ?p (t (get_cards ?p)) (JList (acc @ recs (Suc k))) (int k + 1 + 1)
              (sent @ [get_cards ?p])"
    using cur pg by (rule fetch_more_step)
  also have "int k + 1 + 1 = int (Suc k) + 1" by simp
  finally show ?case
    unfolding ih upt by (simp add: req del: upt_Suc)
qed

lemma fetch_more_fails:
  assumes "1 \<le> k" "k \<le> m"
    and "is_page cards_data rk True"
    and "\<forall>j. k < j \<and> j \<le> m \<longrightarrow> is_page (t (page_request b a j)) (recs j) True"
    and "is_error (t (page_request b a (Suc m)))"
    and "\<forall>v. AList.update ''page'' v params = AList.update ''page'' v (cards_params b a)"
  shows "fetch_more t params cards_data (JList acc) (int k + 1) sent
           = Some (Inr (JList (acc @ concat (map recs [Suc k..<Suc m]))),
                   sent @ map (page_request b a) [Suc k..<Suc (Suc m)])"
  using assms
proof (induction "m - k" arbitrary: k cards_data rk params acc sent)
  case 0
  then have km: "k = m" by simp
  let ?p = "AList.update ''page'' (JInt (int k + 1)) params"
  have req: "get_cards ?p = page_request b a (Suc k)"
    using "0.prems"(6) "0.prems"(1) by (rule page_request_Suc)
  have "is_error (t (get_cards ?p))" using "0.prems"(5) km req by simp
  with "0.prems"(3)
  have "fetch_more t params cards_data (JList acc) (int k + 1) sent
          = Some (Inr (JList acc), sent @ [get_cards ?p])"
    by (rule fetch_more_error)
  then show ?case using km req by simp
next
  case (Suc d)
  then have lt: "k < m" by simp
  let ?p = "AList.update ''page'' (JInt (int k + 1)) params"
  have req: "get_cards ?p = page_request b a (Suc k)"
    using Suc.prems(6) Suc.prems(1) by (rule page_request_Suc)
  have pg: "is_page (t (get_cards ?p)) (recs (Suc k)) True"
    using Suc.prems(4) lt req by simp
  have inv: "\<forall>v. AList.update ''page'' v ?p = AList.update ''page'' v (cards_params b a)"
    using Suc.prems(6) by (metis AList.update_last)
  have rest: "\<forall>j. Suc k < j \<and> j \<le> m \<longrightarrow> is_page (t (page_request b a j)) (recs j) True"
    using Suc.prems(4) by simp
  have d: "d = m - Suc k" using Suc.hyps(2) by simp
  have ih: "fetch_more t ?p (t (get_cards ?p)) (JList (acc @ recs (Suc k))) (int (Suc k) + 1)
              (sent @ [get_cards ?p])
            = Some (Inr (JList ((acc @ recs (Suc k)) @ concat (map recs [Suc (Suc k)..<Suc m]))),
                   (sent @ [get_cards ?p])
                     @ map (page_request b a) [Suc (Suc k)..<Suc (Suc m)])"
    using Suc.hyps(1) [OF d _ _ pg rest Suc.prems(5) inv] lt by (simp del: upt_Suc)
  have upt: "[Suc k..<Suc m] = Suc k # [Suc (Suc k)..<Suc m]"
    "[Suc k..<Suc (Suc m)] = Suc k # [Suc (Suc k)..<Suc (Suc m)]"
    using lt by (simp_all add: upt_conv_Cons del: upt_Suc)
  have "fetch_more t params cards_data (JList acc) (int k + 1) sent
          = fetch_more t ?p (t (get_cards ?p)) (JList (acc @ recs (Suc k))) (int k + 1 + 1)
              (sent @ [get_cards ?p])"
    using Suc.prems(3) pg by (rule fetch_more_step)
  also have "int k + 1 + 1 = int (Suc k) + 1" by simp
  finally show ?case
    unfolding ih upt by (simp add: req del: upt_Suc)
qed

lemma first_request: "get_cards (cards_params b a) = page_request b a 1"
  by (simp add: page_request_def)

lemma fetch_all_cards_complete:
  assumes "1 \<le> n"
    and "\<forall>k. 1 \<le> k \<and> k \<le> n \<longrightarrow> is_page (t (page_request b a k)) (recs k) (k < n)"
  shows "fetch_all_cards t b a
           = Some (Inr (JList (concat (map recs [1..<Suc n]))),
                   map (page_request b a) [1..<Suc n])"
proof -
  have p1: "is_page (t (page_request b a 1)) (recs 1) (1 < n)"
    using assms by simp
  have rest: "\<forall>j. 1 < j \<and> j \<le> n \<longrightarrow> is_page (t (page_request b a j)) (recs j) (j < n)"
    using assms(2) by simp
  have loop: "fetch_more t (cards_params b a) (t (page_request b a 1)) (JList (recs 1))
                (int 1 + 1) [page_request b a 1]
              = Some (Inr (JList (recs 1 @ concat (map recs [Suc 1..<Suc n]))),
                      [page_request b a 1] @ map (page_request b a) [Suc 1..<Suc n])"
    using fetch_more_pages [OF _ assms(1) p1 rest] by simp
  have upt: "[1..<Suc n] = 1 # [Suc 1..<Suc n]"
    using assms(1) by (simp add: upt_conv_Cons del: upt_Suc)
  have "fetch_all_cards t b a
          = fetch_more t (cards_params b a) (t (page_request b a 1)) (JList (recs 1)) 2
              [page_request b a 1]"
    using is_page_gets(1,3) [OF p1]
    by (auto simp: fetch_all_cards_def Let_def first_request)
  then show ?thesis
    using loop unfolding upt by (simp del: upt_Suc)
qed

lemma fetch_all_cards_first_error:
  assumes "is_error (t (page_request b a 1))"
  shows "fetch_all_cards t b a = Some (Inr (t (page_request b a 1)), [page_request b a 1])"
  using is_error_get [OF assms]
  by (auto simp: fetch_all_cards_def Let_def first_request)

lemma fetch_all_cards_partial:
  assumes "1 \<le> m"
    and "\<forall>k. 1 \<le> k \<and> k \<le> m \<longrightarrow> is_page (t (page_request b a k)) (recs k) True"
    and "is_error (t (page_request b a (Suc m)))"
  shows "fetch_all_cards t b a
           = Some (Inr (JList (concat (map recs [1..<Suc m]))),
                   map (page_request b a) [1..<Suc (Suc m)])"
proof -
  have p1: "is_page (t (page_request b a 1)) (recs 1) True"
    using assms by simp
  have rest: "\<forall>j. 1 < j \<and> j \<le> m \<longrightarrow> is_page (t (page_request b a j)) (recs j) True"
    using assms(2) by simp
  have loop: "fetch_more t (cards_params b a) (t (page_request b a 1)) (JList (recs 1))
                (int 1 + 1) [page_request b a 1]
              = Some (Inr (JList (recs 1 @ concat (map recs [Suc 1..<Suc m]))),
                      [page_request b a 1] @ map (page_request b a) [Suc 1..<Suc (Suc m)])"
    using fetch_more_fails [OF _ assms(1) p1 rest assms(3)] by simp
  have upt: "[1..<Suc m] = 1 # [Suc 1..<Suc m]"
    "[1..<Suc (Suc m)] = 1 # [Suc 1..<Suc (Suc m)]"
    using assms(1) by (simp_all add: upt_conv_Cons del: upt_Suc)
  have "fetch_all_cards t b a
          = fetch_more t (cards_params b a) (t (page_request b a 1)) (JList (recs 1)) 2
              [page_request b a 1]"
    using is_page_gets(1,3) [OF p1]
    by (auto simp: fetch_all_cards_def Let_def first_request)
  then show ?thesis
    using loop unfolding upt by (simp del: upt_Suc)
qed

text \<open>
  Mock transports for the literal cases: three pages of 100, 100 and 37 numbered cards,
  and a server that answers the first page and fails on every later one.
\<close>

definition mock_card :: "nat \<Rightarrow> json" where
  "mock_card i = JObj [(''number'', JInt (int i))]"

definition mock_page :: "nat \<Rightarrow> nat \<Rightarrow> bool \<Rightarrow> json" where
  "mock_page i j has_more =
     JObj [(''cards'', JList (map mock_card [i..<j])), (''hasMore'', JBool has_more)]"

definition mock_failure :: json where
  "mock_failure =
     JObj [(''error'', JBool True), (''status'', JInt 500), (''message'', JStr ''Server Error''),
           (''body'', JStr [])]"

definition mock_transport :: transport where
  "mock_transport req =
     (case map_of (req_params req) ''page'' of
        None \<Rightarrow> mock_page 0 100 True
      | Some p \<Rightarrow>
          if p = JInt 2 then mock_page 100 200 True
          else if p = JInt 3 then mock_page 200 237 False
          else mock_failure)"

definition failing_transport :: transport where
  "failing_transport req =
     (case map_of (req_params req) ''page'' of
        None \<Rightarrow> mock_page 0 100 True
      | Some p \<Rightarrow> mock_failure)"

lemma three_cases: "1 \<le> k \<and> k \<le> (3::nat) \<longleftrightarrow> k = 1 \<or> k = 2 \<or> k = 3"
  by arith

text \<open>
  C1. Pagination is complete. For every transport whose answers to the requests for the
  pages \<open>1\<close> to \<open>n\<close> are pages with the records \<open>recs k\<close>, with \<^verbatim>\<open>hasMore\<close> true on
  every page before \<open>n\<close> and false on page \<open>n\<close>, \<open>fetch_all_cards\<close> returns, and
  returns the concatenation of the pages \<open>1\<close> to \<open>n\<close> in page order, nothing dropped and
  nothing repeated, after sending exactly the \<open>n\<close> page requests in order. In particular
  three pages of 100, 100 and 37 records with \<^verbatim>\<open>hasMore\<close> true, true, false give the 237
  records in page order.
\<close>

theorem C1_pagination_complete:
  "(1 \<le> n \<and> (\<forall>k. 1 \<le> k \<and> k \<le> n \<longrightarrow> is_page (t (page_request b a k)) (recs k) (k < n))
      \<longrightarrow> fetch_all_cards t b a
            = Some (Inr (JList (concat (map recs [1..<Suc n]))),
                    map (page_request b a) [1..<Suc n]))
   \<and> (is_page (t' (page_request b' a' 1)) p1 True
        \<and> is_page (t' (page_request b' a' 2)) p2 True
        \<and> is_page (t' (page_request b' a' 3)) p3 False
        \<and> length p1 = 100 \<and> length p2 = 100 \<and> length p3 = 37
      \<longrightarrow> map_option fst (fetch_all_cards t' b' a') = Some (Inr (JList (p1 @ p2 @ p3)))
          \<and> length (p1 @ p2 @ p3) = 237)"
proof (intro conjI impI)
  assume "1 \<le> n \<and> (\<forall>k. 1 \<le> k \<and> k \<le> n \<longrightarrow> is_page (t (page_request b a k)) (recs k) (k < n))"
  then show "fetch_all_cards t b a
            = Some (Inr (JList (concat (map recs [1..<Suc n]))),
                    map (page_request b a) [1..<Suc n])"
    using fetch_all_cards_complete [of n t b a recs] by blast
next
  assume h: "is_page (t' (page_request b' a' 1)) p1 True
        \<and> is_page (t' (page_request b' a' 2)) p2 True
        \<and> is_page (t' (page_request b' a' 3)) p3 False
        \<and> length p1 = 100 \<and> length p2 = 100 \<and> length p3 = 37"
  let ?recs = "\<lambda>k::nat. if k = 1 then p1 else if k = 2 then p2 else p3"
  have pages: "\<forall>k. 1 \<le> k \<and> k \<le> 3 \<longrightarrow> is_page (t' (page_request b' a' k)) (?recs k) (k < 3)"
    unfolding three_cases using h by auto
  have "fetch_all_cards t' b' a'
          = Some (Inr (JList (concat (map ?recs [1..<Suc 3]))),
                  map (page_request b' a') [1..<Suc 3])"
    using pages by (intro fetch_all_cards_complete) simp_all
  moreover have "[1..<Suc 3] = [1, 2, 3]" by (simp add: upt_rec)
  ultimately show "map_option fst (fetch_all_cards t' b' a') = Some (Inr (JList (p1 @ p2 @ p3)))"
    by simp
  show "length (p1 @ p2 @ p3) = 237" using h by simp
qed

lemma mock_requests:
  "map_of (req_params (page_request b a (Suc 0))) ''page'' = None"
  "k \<noteq> Suc 0 \<Longrightarrow> map_of (req_params (page_request b a k)) ''page'' = Some (JInt (int k))"
  by (simp_all add: page_request_def get_cards_def cards_params_def AList.update_conv')

theorem C1_pagination_complete_witness:
  "is_page (mock_transport (page_request (JStr ''board1'') False 1))
     (map mock_card [0..<100]) True
   \<and> is_page (mock_transport (page_request (JStr ''board1'') False 2))
       (map mock_card [100..<200]) True
   \<and> is_page (mock_transport (page_request (JStr ''board1'') False 3))
       (map mock_card [200..<237]) False
   \<and> length (map mock_card [0..<100]) = 100
   \<and> length (map mock_card [100..<200]) = 100
   \<and> length (map mock_card [200..<237]) = 37
   \<and> map_option fst (fetch_all_cards mock_transport (JStr ''board1'') False)
       = Some (Inr (JList (map mock_card [0..<100] @ map mock_card [100..<200]
                           @ map mock_card [200..<237])))
   \<and> length (map mock_card [0..<100] @ map mock_card [100..<200] @ map mock_card [200..<237])
       = 237"
proof -
  have pages:
    "is_page (mock_transport (page_request (JStr ''board1'') False 1))
       (map mock_card [0..<100]) True"
    "is_page (mock_transport (page_request (JStr ''board1'') False 2))
       (map mock_card [100..<200]) True"
    "is_page (mock_transport (page_request (JStr ''board1'') False 3))
       (map mock_card [200..<237]) False"
    by (simp_all add: mock_transport_def mock_requests mock_page_def)
  with C1_pagination_complete
    [where t' = mock_transport and b' = "JStr ''board1''" and a' = False
       and ?p1.0 = "map mock_card [0..<100]" and ?p2.0 = "map mock_card [100..<200]"
       and ?p3.0 = "map mock_card [200..<237]"]
  show ?thesis by simp
qed

text \<open>
  C2. Partial failure. If the answer to the first request is an error, \<open>fetch_all_cards\<close>
  returns that error value itself and nothing else was sent. If the pages \<open>1\<close> to \<open>m\<close>
  all arrive with \<^verbatim>\<open>hasMore\<close> true and the request for page \<open>m + 1\<close> is answered by an
  error, the loop stops and the result is the list of the records of the pages \<open>1\<close> to
  \<open>m\<close>, not an error value. With 100 records on page 1 and an error on page 2 the result
  is exactly those 100 records.
\<close>

theorem C2_partial_failure:
  "(is_error (t (page_request b a 1))
      \<longrightarrow> fetch_all_cards t b a = Some (Inr (t (page_request b a 1)), [page_request b a 1]))
   \<and> (1 \<le> m \<and> (\<forall>k. 1 \<le> k \<and> k \<le> m \<longrightarrow> is_page (t' (page_request b' a' k)) (recs k) True)
        \<and> is_error (t' (page_request b' a' (Suc m)))
      \<longrightarrow> fetch_all_cards t' b' a'
            = Some (Inr (JList (concat (map recs [1..<Suc m]))),
                    map (page_request b' a') [1..<Suc (Suc m)]))
   \<and> (is_page (t'' (page_request b'' a'' 1)) p1 True
        \<and> is_error (t'' (page_request b'' a'' 2)) \<and> length p1 = 100
      \<longrightarrow> (\<exists>cards. map_option fst (fetch_all_cards t'' b'' a'') = Some (Inr (JList cards))
            \<and> cards = p1 \<and> length cards = 100 \<and> \<not> is_error (JList cards)))"
proof (intro conjI impI)
  assume "is_error (t (page_request b a 1))"
  then show "fetch_all_cards t b a = Some (Inr (t (page_request b a 1)), [page_request b a 1])"
    by (rule fetch_all_cards_first_error)
next
  assume "1 \<le> m \<and> (\<forall>k. 1 \<le> k \<and> k \<le> m \<longrightarrow> is_page (t' (page_request b' a' k)) (recs k) True)
        \<and> is_error (t' (page_request b' a' (Suc m)))"
  then show "fetch_all_cards t' b' a'
            = Some (Inr (JList (concat (map recs [1..<Suc m]))),
                    map (page_request b' a') [1..<Suc (Suc m)])"
    using fetch_all_cards_partial [of m t' b' a' recs] by blast
next
  assume h: "is_page (t'' (page_request b'' a'' 1)) p1 True
        \<and> is_error (t'' (page_request b'' a'' 2)) \<and> length p1 = 100"
  have "fetch_all_cards t'' b'' a''
          = Some (Inr (JList (concat (map (\<lambda>k. p1) [1..<Suc 1]))),
                  map (page_request b'' a'') [1..<Suc (Suc 1)])"
    using h by (intro fetch_all_cards_partial) (auto simp: numeral_2_eq_2 le_antisym)
  then show "\<exists>cards. map_option fst (fetch_all_cards t'' b'' a'') = Some (Inr (JList cards))
            \<and> cards = p1 \<and> length cards = 100 \<and> \<not> is_error (JList cards)"
    using h by simp
qed

theorem C2_partial_failure_witness:
  "is_error ((\<lambda>req. mock_failure) (page_request (JStr ''board1'') False 1))
   \<and> fetch_all_cards (\<lambda>req. mock_failure) (JStr ''board1'') False
       = Some (Inr mock_failure, [page_request (JStr ''board1'') False 1])
   \<and> is_page (failing_transport (page_request (JStr ''board1'') True 1))
       (map mock_card [0..<100]) True
   \<and> is_error (failing_transport (page_request (JStr ''board1'') True 2))
   \<and> length (map mock_card [0..<100]) = 100
   \<and> fetch_all_cards failing_transport (JStr ''board1'') True
       = Some (Inr (JList (map mock_card [0..<100])),
               [page_request (JStr ''board1'') True 1, page_request (JStr ''board1'') True 2])"
proof -
  have first: "is_error ((\<lambda>req. mock_failure) (page_request (JStr ''board1'') False 1))"
    by (simp add: mock_failure_def)
  have pages:
    "is_page (failing_transport (page_request (JStr ''board1'') True 1))
       (map mock_card [0..<100]) True"
    "is_error (failing_transport (page_request (JStr ''board1'') True 2))"
    by (simp_all add: failing_transport_def mock_requests mock_page_def mock_failure_def)
  have all: "\<forall>k. 1 \<le> k \<and> k \<le> 1
               \<longrightarrow> is_page (failing_transport (page_request (JStr ''board1'') True k))
                     ((\<lambda>k. map mock_card [0..<100]) k) True"
    using pages(1) by (auto simp: le_antisym)
  have "[1..<Suc 1] = [1]" "[1..<Suc (Suc 1)] = [1, 2]" by (simp_all add: upt_rec)
  with C2_partial_failure
    [where t = "\<lambda>req. mock_failure" and b = "JStr ''board1''" and a = False
       and t' = failing_transport and b' = "JStr ''board1''" and a' = True and m = 1
       and recs = "\<lambda>k. map mock_card [0..<100]"]
    first pages all
  show ?thesis by (simp add: numeral_2_eq_2)
qed

section \<open>WIP Evaluator: \<^verbatim>\<open>cmd_wip_check\<close>\<close>

text \<open>
  \<^verbatim>\<open>col_counts\<close> is a \<^verbatim>\<open>dict\<close> from column identifiers to counts. What a \<^verbatim>\<open>dict\<close> accepts
  as a key, and which keys it takes for the same one: \<^verbatim>\<open>None\<close>, numbers and strings are
  hashable, \<^verbatim>\<open>True\<close> and \<^verbatim>\<open>False\<close> are the keys \<^verbatim>\<open>1\<close> and \<^verbatim>\<open>0\<close>, a list or a \<^verbatim>\<open>dict\<close>
  raises \<^verbatim>\<open>TypeError\<close>.
\<close>

datatype key = KNone | KInt int | KStr string

fun py_key :: "json \<Rightarrow> key result" where
  "py_key JNull = Inr KNone"
| "py_key (JBool b) = Inr (KInt (if b then 1 else 0))"
| "py_key (JInt i) = Inr (KInt i)"
| "py_key (JStr s) = Inr (KStr s)"
| "py_key (JList xs) = Inl TypeError"
| "py_key (JObj kvs) = Inl TypeError"

text \<open>\<^verbatim>\<open>col_counts.get(k, 0)\<close>\<close>

type_synonym counts = "key \<rightharpoonup> nat"

definition counts_get :: "counts \<Rightarrow> key \<Rightarrow> nat" where
  "counts_get col_counts k = (case col_counts k of None \<Rightarrow> 0 | Some c \<Rightarrow> c)"

text \<open>
  \<^verbatim>\<open>
  col_counts = {}
  for card in all_cards:
      cid = get_card_field(card, "columnId")
      if cid:
          col_counts[cid] = col_counts.get(cid, 0) + 1
  \<close>
\<close>

fun count_cards :: "json list \<Rightarrow> counts \<Rightarrow> counts result" where
  "count_cards [] col_counts = Inr col_counts"
| "count_cards (crd # cards) col_counts =
     (case get_card_field crd ''columnId'' of
        Inl e \<Rightarrow> Inl e
      | Inr cid \<Rightarrow>
          if truthy cid then
            (case py_key cid of
               Inl e \<Rightarrow> Inl e
             | Inr k \<Rightarrow> count_cards cards (col_counts(k \<mapsto> counts_get col_counts k + 1)))
          else count_cards cards col_counts)"

text \<open>
  \<^verbatim>\<open>boards[0]\<close> on a value that passed \<^verbatim>\<open>if boards:\<close>: the head of a list, the first
  character of a string, \<^verbatim>\<open>KeyError\<close> on a \<^verbatim>\<open>dict\<close> (its keys are strings), \<^verbatim>\<open>TypeError\<close>
  on a number or \<^verbatim>\<open>True\<close>.
\<close>

fun py_first :: "json \<Rightarrow> json result" where
  "py_first (JList xs) = (case xs of [] \<Rightarrow> Inl IndexError | x # _ \<Rightarrow> Inr x)"
| "py_first (JStr s) = (case s of [] \<Rightarrow> Inl IndexError | c # _ \<Rightarrow> Inr (JStr [c]))"
| "py_first (JObj kvs) = Inl KeyError"
| "py_first _ = Inl TypeError"

text \<open>
  \<^verbatim>\<open>
  boards = board_data.get("boards", [])
  columns = []
  if boards:
      bi = boards[0].get("BoardItem", boards[0])
      columns = bi.get("columns", [])
  \<close>
\<close>

definition board_columns :: "json \<Rightarrow> json result" where
  "board_columns board_data =
     (case py_get board_data ''boards'' (JList []) of
        Inl e \<Rightarrow> Inl e
      | Inr boards \<Rightarrow>
          if truthy boards then
            (case py_first boards of
               Inl e \<Rightarrow> Inl e
             | Inr b0 \<Rightarrow>
                 (case py_get b0 ''BoardItem'' b0 of
                    Inl e \<Rightarrow> Inl e
                  | Inr bi \<Rightarrow> py_get bi ''columns'' (JList [])))
          else Inr (JList []))"

text \<open>
  \<^verbatim>\<open>
  if max_wip and current > max_wip:
      violations.append(f"over max ({current}/{max_wip})")
  \<close>
  by the type of \<^verbatim>\<open>max_wip\<close>. A false value (\<^verbatim>\<open>None\<close>, \<^verbatim>\<open>0\<close>, \<^verbatim>\<open>False\<close>, an empty string
  or container) ends the test before the comparison. \<^verbatim>\<open>True\<close> compares as \<^verbatim>\<open>1\<close> and prints
  as \<^verbatim>\<open>True\<close>. Comparing the count with a filled string, list or \<^verbatim>\<open>dict\<close> raises
  \<^verbatim>\<open>TypeError\<close>. \<open>under_min\<close> is the same for \<^verbatim>\<open>min_wip\<close> and \<^verbatim>\<open><\<close>.
\<close>

fun over_max :: "int \<Rightarrow> json \<Rightarrow> string list result" where
  "over_max current JNull = Inr []"
| "over_max current (JBool b) =
     Inr (if b \<and> current > 1
          then [''over max ('' @ str_int current @ ''/'' @ ''True'' @ '')''] else [])"
| "over_max current (JInt m) =
     Inr (if m \<noteq> 0 \<and> current > m
          then [''over max ('' @ str_int current @ ''/'' @ str_int m @ '')''] else [])"
| "over_max current (JStr s) = (if s = [] then Inr [] else Inl TypeError)"
| "over_max current (JList xs) = (if xs = [] then Inr [] else Inl TypeError)"
| "over_max current (JObj kvs) = (if kvs = [] then Inr [] else Inl TypeError)"

fun under_min :: "int \<Rightarrow> json \<Rightarrow> string list result" where
  "under_min current JNull = Inr []"
| "under_min current (JBool b) =
     Inr (if b \<and> current < 1
          then [''under min ('' @ str_int current @ ''/'' @ ''True'' @ '')''] else [])"
| "under_min current (JInt m) =
     Inr (if m \<noteq> 0 \<and> current < m
          then [''under min ('' @ str_int current @ ''/'' @ str_int m @ '')''] else [])"
| "under_min current (JStr s) = (if s = [] then Inr [] else Inl TypeError)"
| "under_min current (JList xs) = (if xs = [] then Inr [] else Inl TypeError)"
| "under_min current (JObj kvs) = (if kvs = [] then Inr [] else Inl TypeError)"

text \<open>The list \<^verbatim>\<open>violations\<close>: the test on the maximum comes first.\<close>

definition wip_violations :: "int \<Rightarrow> json \<Rightarrow> json \<Rightarrow> string list result" where
  "wip_violations current min_wip max_wip =
     (case over_max current max_wip of
        Inl e \<Rightarrow> Inl e
      | Inr vs_max \<Rightarrow>
          (case under_min current min_wip of
             Inl e \<Rightarrow> Inl e
           | Inr vs_min \<Rightarrow> Inr (vs_max @ vs_min)))"

text \<open>\<^verbatim>\<open>col.get(k, default)\<close> on a value known to be a \<^verbatim>\<open>dict\<close>.\<close>

fun dict_get :: "(string \<times> json) list \<Rightarrow> string \<Rightarrow> json \<Rightarrow> json" where
  "dict_get kvs k dflt = (case map_of kvs k of None \<Rightarrow> dflt | Some v \<Rightarrow> v)"

text \<open>
  One pass of the report loop: \<open>Inr None\<close> when the column is skipped by \<^verbatim>\<open>continue\<close>,
  \<open>Inr (Some row)\<close> when \<^verbatim>\<open>row\<close> is appended to the report.
  \<^verbatim>\<open>
  col = col_wrapper.get("ColumnItem", col_wrapper)
  if col.get("type") != "CARD":
      continue
  col_id = col.get("columnId", col.get("boardTitle"))
  current = col_counts.get(col_id, 0)
  min_wip = col.get("minWIP")
  max_wip = col.get("maxWIP")
  violations = [] ...
  report.append({"columnId": col_id, "columnTitle": col.get("title"),
                 "columnState": col.get("columnState"), "currentCards": current,
                 "minWIP": min_wip, "maxWIP": max_wip, "violations": violations})
  \<close>
\<close>

definition column_entry :: "counts \<Rightarrow> json \<Rightarrow> json option result" where
  "column_entry col_counts col_wrapper =
     (case py_get col_wrapper ''ColumnItem'' col_wrapper of
        Inl e \<Rightarrow> Inl e
      | Inr (JObj col) \<Rightarrow>
          if dict_get col ''type'' JNull \<noteq> JStr ''CARD'' then Inr None
          else
            (let col_id = dict_get col ''columnId'' (dict_get col ''boardTitle'' JNull) in
             case py_key col_id of
               Inl e \<Rightarrow> Inl e
             | Inr k \<Rightarrow>
                 (let current = int (counts_get col_counts k);
                      min_wip = dict_get col ''minWIP'' JNull;
                      max_wip = dict_get col ''maxWIP'' JNull
                  in case wip_violations current min_wip max_wip of
                       Inl e \<Rightarrow> Inl e
                     | Inr violations \<Rightarrow>
                         Inr (Some (JObj
                           [(''columnId'', col_id),
                            (''columnTitle'', dict_get col ''title'' JNull),
                            (''columnState'', dict_get col ''columnState'' JNull),
                            (''currentCards'', JInt current),
                            (''minWIP'', min_wip),
                            (''maxWIP'', max_wip),
                            (''violations'', JList (map JStr violations))]))))
      | Inr _ \<Rightarrow> Inl AttributeError)"

text \<open>The loop \<^verbatim>\<open>for col_wrapper in columns\<close>, in the order of the list.\<close>

fun wip_report :: "counts \<Rightarrow> json list \<Rightarrow> json list result" where
  "wip_report col_counts [] = Inr []"
| "wip_report col_counts (col_wrapper # columns) =
     (case column_entry col_counts col_wrapper of
        Inl e \<Rightarrow> Inl e
      | Inr entry \<Rightarrow>
          (case wip_report col_counts columns of
             Inl e \<Rightarrow> Inl e
           | Inr report \<Rightarrow>
               Inr (case entry of None \<Rightarrow> report | Some row \<Rightarrow> row # report)))"

text \<open>
  How a subcommand ends: \<^verbatim>\<open>error_exit(message)\<close> (the error document is printed and the
  process exits with code 1), \<^verbatim>\<open>output(data)\<close> followed by a normal return, or an uncaught
  exception.
\<close>

datatype outcome = Exit string | Output json | Raised py_error

text \<open>Truth of an optional command line string: \<^verbatim>\<open>None\<close> and the empty string are false.\<close>

fun given :: "string option \<Rightarrow> bool" where
  "given None = False"
| "given (Some s) = (s \<noteq> [])"

text \<open>
  The \<^verbatim>\<open>argparse\<close> namespace, as far as the two commands read it: the filter flags, the
  global \<^verbatim>\<open>--board\<close> and \<^verbatim>\<open>--include-archived\<close>.
\<close>

record args = card_filter +
  args_board :: "string option"
  include_archived :: bool

text \<open>
  \<^verbatim>\<open>
  def require_board(args):
      board = args.board or get_default_board()
      if not board:
          error_exit("Board ID required. Use --board or set KANBANZONE_BOARD_ID")
      return board
  \<close>
  with the value of the environment variable \<^verbatim>\<open>KANBANZONE_BOARD_ID\<close> as a parameter.
\<close>

definition require_board :: "args \<Rightarrow> string option \<Rightarrow> string + string" where
  "require_board a env_board =
     (case (if given (args_board a) then args_board a else env_board) of
        None \<Rightarrow> Inl ''Board ID required. Use --board or set KANBANZONE_BOARD_ID''
      | Some b \<Rightarrow>
          if b = [] then Inl ''Board ID required. Use --board or set KANBANZONE_BOARD_ID''
          else Inr b)"

text \<open>
  \<^verbatim>\<open>cmd_wip_check\<close> after its two fetches: the error test on the fetched cards, the count,
  the columns of the board, the report and the document printed.
\<close>

definition wip_output :: "string \<Rightarrow> json \<Rightarrow> json \<Rightarrow> outcome" where
  "wip_output b board_data all_cards =
     (if is_error all_cards then Output all_cards
      else
        (case py_iter all_cards of
           Inl e \<Rightarrow> Raised e
         | Inr cards \<Rightarrow>
        (case count_cards cards Map.empty of
           Inl e \<Rightarrow> Raised e
         | Inr col_counts \<Rightarrow>
        (case board_columns board_data of
           Inl e \<Rightarrow> Raised e
         | Inr columns \<Rightarrow>
        (case py_iter columns of
           Inl e \<Rightarrow> Raised e
         | Inr cols \<Rightarrow>
        (case wip_report col_counts cols of
           Inl e \<Rightarrow> Raised e
         | Inr report \<Rightarrow>
             Output (JObj [(''board'', JStr b), (''columns'', JList report)])))))))"

definition cmd_wip_check ::
  "transport \<Rightarrow> string option \<Rightarrow> args \<Rightarrow> (outcome \<times> request list) option" where
  "cmd_wip_check api_request env_board a =
     (case require_board a env_board of
        Inl msg \<Rightarrow> Some (Exit msg, [])
      | Inr b \<Rightarrow>
          (let req = \<lparr>req_method = ''GET'', req_path = ''/board/'' @ b,
                      req_params = [(''includeColumns'', JStr ''true'')]\<rparr>;
               board_data = api_request req
           in case py_get board_data ''error'' JNull of
                Inl e \<Rightarrow> Some (Raised e, [req])
              | Inr err \<Rightarrow>
                  if truthy err then Some (Output board_data, [req])
                  else
                    (case fetch_all_cards api_request (JStr b) False of
                       None \<Rightarrow> None
                     | Some (Inl e, sent) \<Rightarrow> Some (Raised e, req # sent)
                     | Some (Inr all_cards, sent) \<Rightarrow>
                         Some (wip_output b board_data all_cards, req # sent))))"

section \<open>Cross-board Search: \<^verbatim>\<open>cmd_search_cards\<close>\<close>

text \<open>
  The loop over the boards:
  \<^verbatim>\<open>
  for board_item in boards_data.get("boards", []):
      bi = board_item.get("BoardItem", board_item)
      board_id = bi.get("publicId")
      if bi.get("isArchived"):
          continue
      cards = fetch_all_cards(board_id, include_archived=args.include_archived)
      if isinstance(cards, dict) and cards.get("error"):
          continue
      filtered = filter_cards(cards, label=args.label, owner=args.owner,
                              priority=args.priority, blocked=args.blocked, query=args.query)
      all_results.extend(filtered)
  \<close>
\<close>

fun search_boards ::
  "(json \<Rightarrow> string) \<Rightarrow> transport \<Rightarrow> args \<Rightarrow> json list
     \<Rightarrow> (json list result \<times> request list) option" where
  "search_boards repr api_request a [] = Some (Inr [], [])"
| "search_boards repr api_request a (board_item # boards) =
     (case py_get board_item ''BoardItem'' board_item of
        Inl e \<Rightarrow> Some (Inl e, [])
      | Inr bi \<Rightarrow>
     (case py_get bi ''publicId'' JNull of
        Inl e \<Rightarrow> Some (Inl e, [])
      | Inr board_id \<Rightarrow>
     (case py_get bi ''isArchived'' JNull of
        Inl e \<Rightarrow> Some (Inl e, [])
      | Inr archived \<Rightarrow>
          if truthy archived then search_boards repr api_request a boards
          else
            (case fetch_all_cards api_request board_id (include_archived a) of
               None \<Rightarrow> None
             | Some (Inl e, sent) \<Rightarrow> Some (Inl e, sent)
             | Some (Inr cards, sent) \<Rightarrow>
                 if is_error cards then
                   map_option (\<lambda>(r, sent'). (r, sent @ sent'))
                     (search_boards repr api_request a boards)
                 else
                   (case py_iter cards of
                      Inl e \<Rightarrow> Some (Inl e, sent)
                    | Inr cs \<Rightarrow>
                   (case filter_cards repr cs
                           \<lparr>label = label a, owner = owner a, column = None,
                            priority = priority a, blocked = blocked a, query = query a\<rparr> of
                      Inl e \<Rightarrow> Some (Inl e, sent)
                    | Inr filtered \<Rightarrow>
                        map_option
                          (\<lambda>(r, sent').
                             (case r of Inl e \<Rightarrow> Inl e | Inr results \<Rightarrow> Inr (filtered @ results),
                              sent @ sent'))
                          (search_boards repr api_request a boards)))))))"

text \<open>
  \<^verbatim>\<open>
  def cmd_search_cards(args):
      if not args.query and not (args.label or args.owner or args.priority or args.blocked):
          error_exit("Provide --query and/or filter flags (--label, --owner, --priority, --blocked).")
      boards_data = api_request("GET", "/boards")
      if boards_data.get("error"):
          output(boards_data)
          return
      ...
      output({"count": len(all_results), "cards": all_results})
  \<close>
\<close>

definition get_boards :: request where
  "get_boards = \<lparr>req_method = ''GET'', req_path = ''/boards'', req_params = []\<rparr>"

definition usage :: string where
  "usage = ''Provide --query and/or filter flags (--label, --owner, --priority, --blocked).''"

definition cmd_search_cards ::
  "(json \<Rightarrow> string) \<Rightarrow> transport \<Rightarrow> args \<Rightarrow> (outcome \<times> request list) option" where
  "cmd_search_cards repr api_request a =
     (if \<not> given (query a)
         \<and> \<not> (given (label a) \<or> given (owner a) \<or> given (priority a) \<or> blocked a)
      then Some (Exit usage, [])
      else
        (let req = get_boards;
             boards_data = api_request req
         in case py_get boards_data ''error'' JNull of
              Inl e \<Rightarrow> Some (Raised e, [req])
            | Inr err \<Rightarrow>
                if truthy err then Some (Output boards_data, [req])
                else
                  (case py_get boards_data ''boards'' (JList []) of
                     Inl e \<Rightarrow> Some (Raised e, [req])
                   | Inr boards \<Rightarrow>
                  (case py_iter boards of
                     Inl e \<Rightarrow> Some (Raised e, [req])
                   | Inr board_items \<Rightarrow>
                  (case search_boards repr api_request a board_items of
                     None \<Rightarrow> None
                   | Some (Inl e, sent) \<Rightarrow> Some (Raised e, req # sent)
                   | Some (Inr all_results, sent) \<Rightarrow>
                       Some (Output (JObj [(''count'', JInt (int (length all_results))),
                                           (''cards'', JList all_results)]),
                             req # sent))))))"

section \<open>Properties of the Cross-board Search\<close>

text \<open>
  For the closed examples: the namespace of an invocation without any flag, a stand-in for
  the text Python prints for lists and \<^verbatim>\<open>dict\<close>s (no example prints one), and a transport
  whose every answer is the error value.
\<close>

definition no_args :: args where
  "no_args =
     \<lparr>label = None, owner = None, column = None, priority = None, blocked = False,
      query = None, args_board = None, include_archived = False\<rparr>"

definition no_repr :: "json \<Rightarrow> string" where
  "no_repr v = []"

definition down_transport :: transport where
  "down_transport req = mock_failure"

lemma search_not_guarded:
  assumes "given (query a) \<or> given (label a) \<or> given (owner a) \<or> given (priority a) \<or> blocked a"
    and "cmd_search_cards repr t a = Some (out, sent)"
  shows "(\<exists>rest. sent = get_boards # rest) \<and> (\<forall>msg. out \<noteq> Exit msg)"
  using assms
  by (auto simp: cmd_search_cards_def Let_def split: sum.splits option.splits prod.splits if_splits)

lemma search_boards_down:
  assumes "given (query a) \<or> given (label a) \<or> given (owner a) \<or> given (priority a) \<or> blocked a"
    and "is_error (t get_boards)"
  shows "cmd_search_cards repr t a = Some (Output (t get_boards), [get_boards])"
  using assms(1) is_error_get [OF assms(2)]
  by (auto simp: cmd_search_cards_def Let_def)

text \<open>
  C5, as amended. The guard of the cross-board search fires exactly when no query and no
  label, owner or priority filter with a non-empty value is given and \<^verbatim>\<open>--blocked\<close> is not
  set. When it fires the command ends with the usage error and has sent no request.
  When one of them is given with a non-empty value (or \<^verbatim>\<open>--blocked\<close> is set) the guard does
  not fire: whenever the command returns, its first request is the board listing and its
  outcome is not the usage error; for instance a failing board listing is printed as is.
\<close>

theorem C5_search_guard:
  "(\<not> given (query a) \<and> \<not> given (label a) \<and> \<not> given (owner a) \<and> \<not> given (priority a)
      \<and> \<not> blocked a
      \<longrightarrow> cmd_search_cards repr t a = Some (Exit usage, []))
   \<and> (given (query a') \<or> given (label a') \<or> given (owner a') \<or> given (priority a')
        \<or> blocked a'
      \<longrightarrow> (\<forall>out sent. cmd_search_cards repr t' a' = Some (out, sent)
             \<longrightarrow> (\<exists>rest. sent = get_boards # rest) \<and> (\<forall>msg. out \<noteq> Exit msg))
          \<and> (is_error (t' get_boards)
             \<longrightarrow> cmd_search_cards repr t' a' = Some (Output (t' get_boards), [get_boards])))"
proof -
  have fires: "\<not> given (query a) \<and> \<not> given (label a) \<and> \<not> given (owner a)
      \<and> \<not> given (priority a) \<and> \<not> blocked a
      \<longrightarrow> cmd_search_cards repr t a = Some (Exit usage, [])"
    by (simp add: cmd_search_cards_def)
  show ?thesis
    using fires search_not_guarded [of a' repr t'] search_boards_down [of a' t' repr]
    by blast
qed

theorem C5_search_guard_witness:
  "\<not> given (query no_args) \<and> \<not> given (label no_args) \<and> \<not> given (owner no_args)
   \<and> \<not> given (priority no_args) \<and> \<not> blocked no_args
   \<and> cmd_search_cards no_repr mock_transport no_args = Some (Exit usage, [])
   \<and> given (label (no_args\<lparr>label := Some ''urgent''\<rparr>))
   \<and> is_error (down_transport get_boards)
   \<and> cmd_search_cards no_repr down_transport (no_args\<lparr>label := Some ''urgent''\<rparr>)
       = Some (Output mock_failure, [get_boards])"
  using C5_search_guard
    [where a = no_args and repr = no_repr and t = mock_transport
       and a' = "no_args\<lparr>label := Some ''urgent''\<rparr>" and t' = down_transport]
  by (simp add: no_args_def down_transport_def mock_failure_def)

text \<open>
  C5 as stated fails where a flag is supplied with the empty string: \<^verbatim>\<open>--query ""\<close> is a
  supplied query, and the guard fires all the same.
\<close>

theorem C5_empty_query_counterexample:
  "query (no_args\<lparr>query := Some []\<rparr>) = Some []
   \<and> cmd_search_cards no_repr mock_transport (no_args\<lparr>query := Some []\<rparr>)
       = Some (Exit usage, [])"
  by (simp add: cmd_search_cards_def no_args_def)

section \<open>Properties of the WIP Evaluator\<close>

text \<open>
  Vocabulary of the statements. \<open>limit_of v\<close>: the limit a threshold value sets, none for an
  absent or \<^verbatim>\<open>null\<close> value and none for \<^verbatim>\<open>0\<close>. \<open>int_or_absent v\<close>: the value is an
  integer or \<^verbatim>\<open>null\<close>, which is what the API stores in \<^verbatim>\<open>minWIP\<close> and \<^verbatim>\<open>maxWIP\<close>.
  \<open>column_id col\<close>: the identifier of a column, \<^verbatim>\<open>columnId\<close> or else \<^verbatim>\<open>boardTitle\<close>.
\<close>

fun limit_of :: "json \<Rightarrow> int option" where
  "limit_of (JInt m) = (if m = 0 then None else Some m)"
| "limit_of _ = None"

fun int_or_absent :: "json \<Rightarrow> bool" where
  "int_or_absent JNull = True"
| "int_or_absent (JInt m) = True"
| "int_or_absent _ = False"

definition column_id :: "(string \<times> json) list \<Rightarrow> json" where
  "column_id col = dict_get col ''columnId'' (dict_get col ''boardTitle'' JNull)"

lemma over_max_limit:
  "int_or_absent mx \<Longrightarrow>
   over_max c mx
     = Inr (case limit_of mx of
              None \<Rightarrow> []
            | Some M \<Rightarrow>
                if c > M then [''over max ('' @ str_int c @ ''/'' @ str_int M @ '')''] else [])"
  by (cases mx) auto

lemma under_min_limit:
  "int_or_absent mn \<Longrightarrow>
   under_min c mn
     = Inr (case limit_of mn of
              None \<Rightarrow> []
            | Some m \<Rightarrow>
                if c < m then [''under min ('' @ str_int c @ ''/'' @ str_int m @ '')''] else [])"
  by (cases mn) auto

lemma column_entry_card:
  assumes "py_get w ''ColumnItem'' w = Inr (JObj col)"
    and "dict_get col ''type'' JNull = JStr ''CARD''"
    and "py_key (column_id col) = Inr k"
    and "wip_violations (int (counts_get cc k)) (dict_get col ''minWIP'' JNull)
           (dict_get col ''maxWIP'' JNull) = Inr vs"
  shows "column_entry cc w
           = Inr (Some (JObj
               [(''columnId'', column_id col),
                (''columnTitle'', dict_get col ''title'' JNull),
                (''columnState'', dict_get col ''columnState'' JNull),
                (''currentCards'', JInt (int (counts_get cc k))),
                (''minWIP'', dict_get col ''minWIP'' JNull),
                (''maxWIP'', dict_get col ''maxWIP'' JNull),
                (''violations'', JList (map JStr vs))]))"
  using assms by (simp add: column_entry_def column_id_def Let_def del: dict_get.simps)

text \<open>
  C3, as amended. For every CARD-typed column (flat or under \<^verbatim>\<open>ColumnItem\<close>) with a
  hashable identifier and integer or absent thresholds, and with current count \<open>c\<close>, the
  row of the report carries \<open>c\<close> as \<^verbatim>\<open>currentCards\<close>, and its \<^verbatim>\<open>violations\<close> are
  \<^verbatim>\<open>over max (c/max)\<close> exactly when the maximum is set to a non-zero value and \<open>c\<close>
  exceeds it, followed by \<^verbatim>\<open>under min (c/min)\<close> exactly when the minimum is set to a
  non-zero value and \<open>c\<close> is below it, and nothing else. For \<^verbatim>\<open>minWIP\<close> 2 and \<^verbatim>\<open>maxWIP\<close> 5
  the counts 7, 1 and 3 give \<^verbatim>\<open>over max (7/5)\<close>, \<^verbatim>\<open>under min (1/2)\<close> and no violation.
\<close>

theorem C3_wip_violations:
  "(py_get w ''ColumnItem'' w = Inr (JObj col)
      \<and> dict_get col ''type'' JNull = JStr ''CARD''
      \<and> py_key (column_id col) = Inr k
      \<and> int_or_absent (dict_get col ''minWIP'' JNull)
      \<and> int_or_absent (dict_get col ''maxWIP'' JNull)
    \<longrightarrow> (\<exists>row. column_entry cc w = Inr (Some (JObj row))
          \<and> map_of row ''currentCards'' = Some (JInt (int (counts_get cc k)))
          \<and> map_of row ''violations''
              = Some (JList (map JStr
                  ((case limit_of (dict_get col ''maxWIP'' JNull) of
                      None \<Rightarrow> []
                    | Some M \<Rightarrow>
                        if int (counts_get cc k) > M
                        then [''over max ('' @ str_int (int (counts_get cc k)) @ ''/''
                                @ str_int M @ '')'']
                        else [])
                   @ (case limit_of (dict_get col ''minWIP'' JNull) of
                        None \<Rightarrow> []
                      | Some m \<Rightarrow>
                          if int (counts_get cc k) < m
                          then [''under min ('' @ str_int (int (counts_get cc k)) @ ''/''
                                  @ str_int m @ '')'']
                          else []))))))
   \<and> column_entry [KStr ''c1'' \<mapsto> 7]
        (JObj [(''columnId'', JStr ''c1''), (''type'', JStr ''CARD''),
               (''minWIP'', JInt 2), (''maxWIP'', JInt 5)])
       = Inr (Some (JObj
           [(''columnId'', JStr ''c1''), (''columnTitle'', JNull), (''columnState'', JNull),
            (''currentCards'', JInt 7), (''minWIP'', JInt 2), (''maxWIP'', JInt 5),
            (''violations'', JList [JStr ''over max (7/5)''])]))
   \<and> column_entry [KStr ''c1'' \<mapsto> 1]
        (JObj [(''columnId'', JStr ''c1''), (''type'', JStr ''CARD''),
               (''minWIP'', JInt 2), (''maxWIP'', JInt 5)])
       = Inr (Some (JObj
           [(''columnId'', JStr ''c1''), (''columnTitle'', JNull), (''columnState'', JNull),
            (''currentCards'', JInt 1), (''minWIP'', JInt 2), (''maxWIP'', JInt 5),
            (''violations'', JList [JStr ''under min (1/2)''])]))
   \<and> column_entry [KStr ''c1'' \<mapsto> 3]
        (JObj [(''columnId'', JStr ''c1''), (''type'', JStr ''CARD''),
               (''minWIP'', JInt 2), (''maxWIP'', JInt 5)])
       = Inr (Some (JObj
           [(''columnId'', JStr ''c1''), (''columnTitle'', JNull), (''columnState'', JNull),
            (''currentCards'', JInt 3), (''minWIP'', JInt 2), (''maxWIP'', JInt 5),
            (''violations'', JList [])]))"
proof (intro conjI impI)
  assume h: "py_get w ''ColumnItem'' w = Inr (JObj col)
      \<and> dict_get col ''type'' JNull = JStr ''CARD''
      \<and> py_key (column_id col) = Inr k
      \<and> int_or_absent (dict_get col ''minWIP'' JNull)
      \<and> int_or_absent (dict_get col ''maxWIP'' JNull)"
  let ?c = "int (counts_get cc k)"
  let ?vs = "(case limit_of (dict_get col ''maxWIP'' JNull) of
                      None \<Rightarrow> []
                    | Some M \<Rightarrow>
                        if ?c > M
                        then [''over max ('' @ str_int ?c @ ''/'' @ str_int M @ '')'']
                        else [])
             @ (case limit_of (dict_get col ''minWIP'' JNull) of
                        None \<Rightarrow> []
                      | Some m \<Rightarrow>
                          if ?c < m
                          then [''under min ('' @ str_int ?c @ ''/'' @ str_int m @ '')'']
                          else [])"
  have "wip_violations ?c (dict_get col ''minWIP'' JNull) (dict_get col ''maxWIP'' JNull)
          = Inr ?vs"
    using h by (simp add: wip_violations_def over_max_limit under_min_limit
        del: dict_get.simps)
  with h have "column_entry cc w
           = Inr (Some (JObj
               [(''columnId'', column_id col),
                (''columnTitle'', dict_get col ''title'' JNull),
                (''columnState'', dict_get col ''columnState'' JNull),
                (''currentCards'', JInt ?c),
                (''minWIP'', dict_get col ''minWIP'' JNull),
                (''maxWIP'', dict_get col ''maxWIP'' JNull),
                (''violations'', JList (map JStr ?vs))]))"
    by (intro column_entry_card) simp_all
  then show "\<exists>row. column_entry cc w = Inr (Some (JObj row))
          \<and> map_of row ''currentCards'' = Some (JInt ?c)
          \<and> map_of row ''violations'' = Some (JList (map JStr ?vs))"
    by simp
qed (simp_all add: column_entry_def wip_violations_def counts_get_def str_int_def digits.simps)

theorem C3_wip_violations_witness:
  "py_get (JObj [(''ColumnItem'', JObj [(''boardTitle'', JStr ''Doing''), (''type'', JStr ''CARD''),
                                        (''maxWIP'', JInt 2)])])
      ''ColumnItem''
      (JObj [(''ColumnItem'', JObj [(''boardTitle'', JStr ''Doing''), (''type'', JStr ''CARD''),
                                    (''maxWIP'', JInt 2)])])
     = Inr (JObj [(''boardTitle'', JStr ''Doing''), (''type'', JStr ''CARD''),
                  (''maxWIP'', JInt 2)])
   \<and> dict_get [(''boardTitle'', JStr ''Doing''), (''type'', JStr ''CARD''), (''maxWIP'', JInt 2)]
        ''type'' JNull = JStr ''CARD''
   \<and> py_key (column_id [(''boardTitle'', JStr ''Doing''), (''type'', JStr ''CARD''),
                         (''maxWIP'', JInt 2)]) = Inr (KStr ''Doing'')
   \<and> int_or_absent (dict_get [(''boardTitle'', JStr ''Doing''), (''type'', JStr ''CARD''),
                               (''maxWIP'', JInt 2)] ''minWIP'' JNull)
   \<and> int_or_absent (dict_get [(''boardTitle'', JStr ''Doing''), (''type'', JStr ''CARD''),
                               (''maxWIP'', JInt 2)] ''maxWIP'' JNull)
   \<and> (\<exists>row. column_entry [KStr ''Doing'' \<mapsto> 12]
               (JObj [(''ColumnItem'', JObj [(''boardTitle'', JStr ''Doing''),
                                             (''type'', JStr ''CARD''), (''maxWIP'', JInt 2)])])
             = Inr (Some (JObj row))
          \<and> map_of row ''currentCards'' = Some (JInt 12)
          \<and> map_of row ''violations'' = Some (JList [JStr ''over max (12/2)'']))"
  using C3_wip_violations
    [where w = "JObj [(''ColumnItem'', JObj [(''boardTitle'', JStr ''Doing''),
                                             (''type'', JStr ''CARD''), (''maxWIP'', JInt 2)])]"
       and col = "[(''boardTitle'', JStr ''Doing''), (''type'', JStr ''CARD''),
                   (''maxWIP'', JInt 2)]"
       and k = "KStr ''Doing''" and cc = "[KStr ''Doing'' \<mapsto> 12]"]
  by (simp add: column_id_def counts_get_def str_int_def digits.simps)

text \<open>
  C3 as stated fails for a threshold set to zero: the column has \<^verbatim>\<open>maxWIP\<close> 0 and holds
  one card, which exceeds it, and the row reports no violation.
\<close>

theorem C3_zero_limit_counterexample:
  "dict_get [(''columnId'', JStr ''c1''), (''type'', JStr ''CARD''), (''maxWIP'', JInt 0)]
      ''maxWIP'' JNull = JInt 0
   \<and> counts_get [KStr ''c1'' \<mapsto> 1] (KStr ''c1'') > 0
   \<and> column_entry [KStr ''c1'' \<mapsto> 1]
        (JObj [(''columnId'', JStr ''c1''), (''type'', JStr ''CARD''), (''maxWIP'', JInt 0)])
       = Inr (Some (JObj
           [(''columnId'', JStr ''c1''), (''columnTitle'', JNull), (''columnState'', JNull),
            (''currentCards'', JInt 1), (''minWIP'', JNull), (''maxWIP'', JInt 0),
            (''violations'', JList [])]))"
  by (simp add: column_entry_def wip_violations_def counts_get_def)

text \<open>
  Vocabulary for the columns. \<open>is_card_column w\<close>: the column (flat or wrapped) is a
  \<^verbatim>\<open>dict\<close> of type \<^verbatim>\<open>CARD\<close>; \<open>is_other_column w\<close>: it is a \<^verbatim>\<open>dict\<close> of another type, or
  of none. \<open>row_of cc w\<close>: the row the loop appends for the column \<open>w\<close>.
\<close>

fun is_card_column :: "json \<Rightarrow> bool" where
  "is_card_column w =
     (case py_get w ''ColumnItem'' w of
        Inr (JObj col) \<Rightarrow> dict_get col ''type'' JNull = JStr ''CARD''
      | _ \<Rightarrow> False)"

fun is_other_column :: "json \<Rightarrow> bool" where
  "is_other_column w =
     (case py_get w ''ColumnItem'' w of
        Inr (JObj col) \<Rightarrow> dict_get col ''type'' JNull \<noteq> JStr ''CARD''
      | _ \<Rightarrow> False)"

declare is_card_column.simps [simp del] is_other_column.simps [simp del]

definition row_of :: "counts \<Rightarrow> json \<Rightarrow> json" where
  "row_of cc w = (case column_entry cc w of Inr (Some row) \<Rightarrow> row | _ \<Rightarrow> JNull)"

lemma column_entry_other:
  "is_other_column w \<Longrightarrow> column_entry cc w = Inr None"
  by (auto simp: column_entry_def is_other_column.simps split: sum.splits json.splits)

lemma column_entry_None:
  "column_entry cc w = Inr None \<Longrightarrow> \<not> is_card_column w"
  by (auto simp: column_entry_def Let_def is_card_column.simps
      split: sum.splits json.splits if_splits)

lemma column_entry_Some:
  "column_entry cc w = Inr (Some row) \<Longrightarrow> is_card_column w"
  by (auto simp: column_entry_def Let_def is_card_column.simps
      split: sum.splits json.splits if_splits)

lemma wip_report_drop:
  "is_other_column w \<Longrightarrow> wip_report cc (xs @ w # ys) = wip_report cc (xs @ ys)"
  by (induction xs) (simp_all add: column_entry_other split: sum.splits)

lemma wip_report_rows:
  "wip_report cc columns = Inr report \<Longrightarrow>
     report = map (row_of cc) (filter is_card_column columns)"
proof (induction columns arbitrary: report)
  case Nil
  then show ?case by simp
next
  case (Cons w columns)
  from Cons.prems obtain entry rest where
    e: "column_entry cc w = Inr entry" and r: "wip_report cc columns = Inr rest"
    and rep: "report = (case entry of None \<Rightarrow> rest | Some row \<Rightarrow> row # rest)"
    by (auto split: sum.splits)
  have rest: "rest = map (row_of cc) (filter is_card_column columns)"
    using r by (rule Cons.IH)
  show ?case
  proof (cases entry)
    case None
    with e have "\<not> is_card_column w" by (simp add: column_entry_None)
    with None rep rest show ?thesis by simp
  next
    case (Some row)
    with e have "is_card_column w" by (simp add: column_entry_Some)
    moreover have "row_of cc w = row" using e Some by (simp add: row_of_def)
    ultimately show ?thesis using Some rep rest by simp
  qed
qed

text \<open>
  C9. A column whose type is not \<^verbatim>\<open>CARD\<close> produces no row, whatever its thresholds and
  whatever the counts: the loop body skips it, and the report of a column list is the
  report of the list without it. The rows of a report are the rows of the CARD-typed
  columns, in the order of the column list as the server returned it.
\<close>

theorem C9_non_card_columns_excluded:
  "(is_other_column w \<longrightarrow>
      column_entry cc w = Inr None
      \<and> wip_report cc (xs @ w # ys) = wip_report cc (xs @ ys))
   \<and> (wip_report cc' columns = Inr report \<longrightarrow>
        report = map (row_of cc') (filter is_card_column columns))"
  using column_entry_other [of w cc] wip_report_drop [of w cc xs ys]
    wip_report_rows [of cc' columns report]
  by blast

text \<open>
  A literal board for the examples: a wrapped CARD column with limits 2 and 5 and no card,
  an ARCHIVE column over its maximum, a CARD column over its maximum; five cards, one of
  them not assigned to any column.
\<close>

definition todo_column :: json where
  "todo_column =
     JObj [(''ColumnItem'',
            JObj [(''columnId'', JStr ''c1''), (''title'', JStr ''To Do''), (''type'', JStr ''CARD''),
                  (''minWIP'', JInt 2), (''maxWIP'', JInt 5)])]"

definition archive_column :: json where
  "archive_column =
     JObj [(''columnId'', JStr ''c9''), (''title'', JStr ''Archive''), (''type'', JStr ''ARCHIVE''),
           (''maxWIP'', JInt 1)]"

definition doing_column :: json where
  "doing_column =
     JObj [(''columnId'', JStr ''c2''), (''title'', JStr ''Doing''), (''type'', JStr ''CARD''),
           (''maxWIP'', JInt 1)]"

definition wip_board :: json where
  "wip_board =
     JObj [(''boards'',
            JList [JObj [(''BoardItem'',
                          JObj [(''publicId'', JStr ''b1''),
                                (''columns'',
                                 JList [todo_column, archive_column, doing_column])])]])]"

definition wip_cards :: "json list" where
  "wip_cards =
     [JObj [(''title'', JStr ''a''), (''columnId'', JStr ''c2'')],
      JObj [(''CardItem'', JObj [(''title'', JStr ''b''), (''columnId'', JStr ''c2'')])],
      JObj [(''title'', JStr ''c''), (''columnId'', JStr ''c9'')],
      JObj [(''CardItem'', JObj [(''title'', JStr ''d''), (''columnId'', JStr ''c9'')])],
      JObj [(''title'', JStr ''e'')]]"

definition wip_transport :: transport where
  "wip_transport req =
     (if req_path req = ''/cards''
      then JObj [(''cards'', JList wip_cards), (''hasMore'', JBool False)]
      else wip_board)"

definition todo_row :: json where
  "todo_row =
     JObj [(''columnId'', JStr ''c1''), (''columnTitle'', JStr ''To Do''), (''columnState'', JNull),
           (''currentCards'', JInt 0), (''minWIP'', JInt 2), (''maxWIP'', JInt 5),
           (''violations'', JList [JStr ''under min (0/2)''])]"

definition doing_row :: json where
  "doing_row =
     JObj [(''columnId'', JStr ''c2''), (''columnTitle'', JStr ''Doing''), (''columnState'', JNull),
           (''currentCards'', JInt 2), (''minWIP'', JNull), (''maxWIP'', JInt 1),
           (''violations'', JList [JStr ''over max (2/1)''])]"

lemmas wip_example_defs =
  todo_column_def archive_column_def doing_column_def wip_board_def wip_cards_def
  wip_transport_def todo_row_def doing_row_def

lemma wip_example_report:
  "wip_report [KStr ''c2'' \<mapsto> 2, KStr ''c9'' \<mapsto> 2] [todo_column, archive_column, doing_column]
     = Inr [todo_row, doing_row]"
  by (simp add: wip_example_defs column_entry_def wip_violations_def counts_get_def
      str_int_def digits.simps)

lemma wip_example_run:
  "cmd_wip_check wip_transport None (no_args\<lparr>args_board := Some ''b1''\<rparr>)
     = Some (Output (JObj [(''board'', JStr ''b1''), (''columns'', JList [todo_row, doing_row])]),
             [\<lparr>req_method = ''GET'', req_path = ''/board/b1'',
               req_params = [(''includeColumns'', JStr ''true'')]\<rparr>,
              page_request (JStr ''b1'') False 1])"
proof -
  have fetch: "fetch_all_cards wip_transport (JStr ''b1'') False
                 = Some (Inr (JList wip_cards), [page_request (JStr ''b1'') False 1])"
    using fetch_all_cards_complete [of 1 wip_transport "JStr ''b1''" False "\<lambda>k. wip_cards"]
    by (simp add: wip_transport_def page_request_def get_cards_def)
  have count: "\<exists>cc. count_cards wip_cards Map.empty = Inr cc
                 \<and> counts_get cc (KStr ''c1'') = 0 \<and> counts_get cc (KStr ''c2'') = 2"
    by (simp add: wip_cards_def counts_get_def)
  then obtain cc where cc: "count_cards wip_cards Map.empty = Inr cc"
    "counts_get cc (KStr ''c1'') = 0" "counts_get cc (KStr ''c2'') = 2"
    by blast
  have report: "wip_report cc [todo_column, archive_column, doing_column]
                  = Inr [todo_row, doing_row]"
    using cc(2,3)
    by (simp add: wip_example_defs column_entry_def wip_violations_def
        str_int_def digits.simps)
  have cols: "board_columns wip_board
                = Inr (JList [todo_column, archive_column, doing_column])"
    by (simp add: board_columns_def wip_board_def)
  have out: "wip_output ''b1'' wip_board (JList wip_cards)
               = Output (JObj [(''board'', JStr ''b1''),
                               (''columns'', JList [todo_row, doing_row])])"
    by (simp add: wip_output_def cc(1) cols report del: wip_report.simps)
  have board: "wip_transport \<lparr>req_method = ''GET'', req_path = ''/board/b1'',
               req_params = [(''includeColumns'', JStr ''true'')]\<rparr> = wip_board"
    by (simp add: wip_transport_def)
  have noerr: "py_get wip_board ''error'' JNull = Inr JNull"
    by (simp add: wip_board_def)
  have board_arg: "require_board (no_args\<lparr>args_board := Some ''b1''\<rparr>) None = Inr ''b1''"
    by (simp add: require_board_def no_args_def)
  show ?thesis
    unfolding cmd_wip_check_def board_arg
    by (simp add: Let_def board noerr fetch out)
qed

theorem C9_non_card_columns_excluded_witness:
  "is_other_column archive_column
   \<and> column_entry [KStr ''c2'' \<mapsto> 2, KStr ''c9'' \<mapsto> 2] archive_column = Inr None
   \<and> wip_report [KStr ''c2'' \<mapsto> 2, KStr ''c9'' \<mapsto> 2]
        [todo_column, archive_column, doing_column] = Inr [todo_row, doing_row]
   \<and> wip_report [KStr ''c2'' \<mapsto> 2, KStr ''c9'' \<mapsto> 2] [todo_column, doing_column]
       = Inr [todo_row, doing_row]
   \<and> [todo_row, doing_row]
       = map (row_of [KStr ''c2'' \<mapsto> 2, KStr ''c9'' \<mapsto> 2])
           (filter is_card_column [todo_column, archive_column, doing_column])
   \<and> cmd_wip_check wip_transport None (no_args\<lparr>args_board := Some ''b1''\<rparr>)
       = Some (Output (JObj [(''board'', JStr ''b1''),
                             (''columns'', JList [todo_row, doing_row])]),
               [\<lparr>req_method = ''GET'', req_path = ''/board/b1'',
                 req_params = [(''includeColumns'', JStr ''true'')]\<rparr>,
                page_request (JStr ''b1'') False 1])"
proof -
  have other: "is_other_column archive_column"
    by (simp add: archive_column_def is_other_column.simps)
  from C9_non_card_columns_excluded
    [where w = archive_column and cc = "[KStr ''c2'' \<mapsto> 2, KStr ''c9'' \<mapsto> 2]"
       and xs = "[todo_column]" and ys = "[doing_column]"
       and cc' = "[KStr ''c2'' \<mapsto> 2, KStr ''c9'' \<mapsto> 2]"
       and columns = "[todo_column, archive_column, doing_column]"
       and report = "[todo_row, doing_row]"]
    other wip_example_report wip_example_run
  show ?thesis by simp
qed




lemma counts_get_upd:
  "counts_get (m(k \<mapsto> n)) k' = (if k' = k then n else counts_get m k')"
  by (simp add: counts_get_def)









end
